theory Spec2Isabelle
  imports Complex_Main
begin

section \<open>Numbers, errors and array reads\<close>

text \<open>
  The TypeScript sources compute with JavaScript numbers. They are embedded as
  \<^typ>\<open>real\<close>: the decimal constants of the sources (0.12, 0.30, 0.001, ...) are the
  exact decimal fractions, and rounding of IEEE doubles is not part of the model.
  Frame counters, indices and array lengths are \<^typ>\<open>nat\<close>, \<open>Date.now()\<close> is an
  \<^typ>\<open>int\<close> number of milliseconds.

  Reading an array beyond its end gives \<open>undefined\<close> in JavaScript, and reading a
  property of \<open>undefined\<close> throws a \<open>TypeError\<close>. Functions that can throw return
  a sum, with the error on the left.
\<close>

datatype error = TypeError

definition elemAt :: "'a list \<Rightarrow> nat \<Rightarrow> 'a option" where
  "elemAt xs i = (if i < length xs then Some (xs ! i) else None)"


section \<open>poseAnalyzer.ts\<close>

text \<open>\<open>NormalizedLandmark\<close> of the MediaPipe library: the coordinates of one mesh point.\<close>

record NormalizedLandmark =
  x :: real
  y :: real
  z :: real

text \<open>\<open>HeadPose\<close>; \<open>noseTip\<close> is the pair of the raw \<open>x\<close> and \<open>y\<close> of the nose tip.\<close>

record HeadPose =
  yaw :: real
  pitch :: real
  noseTip :: "real \<times> real"


section \<open>motionValidator.ts\<close>

text \<open>
  The module \<open>lib/motionValidator\<close>; its text follows the component in
  \<open>src/components/LivenessCam.tsx\<close>.
\<close>

datatype ChallengeDirection = turnLeft | turnRight | lookUp | lookDown

record MotionResult =
  isValid :: bool
  progress :: real
  rejectionReason :: "string option"

definition MIN_DISPLACEMENT_HORIZONTAL :: real where
  "MIN_DISPLACEMENT_HORIZONTAL = 0.30"

definition MIN_DISPLACEMENT_VERTICAL :: real where
  "MIN_DISPLACEMENT_VERTICAL = 0.18"

definition getMinDisplacement :: "ChallengeDirection \<Rightarrow> real" where
  "getMinDisplacement direction =
     (if direction = lookUp \<or> direction = lookDown
      then MIN_DISPLACEMENT_VERTICAL
      else MIN_DISPLACEMENT_HORIZONTAL)"

definition MAX_FRAME_DELTA :: real where
  "MAX_FRAME_DELTA = 0.12"

definition WINDOW_SIZE :: nat where
  "WINDOW_SIZE = 18"

definition MIN_DIRECTIONAL_RATIO :: real where
  "MIN_DIRECTIONAL_RATIO = 0.55"

datatype Axis = AxisYaw | AxisPitch

text \<open>The state of a \<open>MotionValidator\<close> object.\<close>

record MotionValidator =
  poseHistory :: "HeadPose list"
  isStarted :: bool

definition MotionValidator_new :: MotionValidator where
  "MotionValidator_new = \<lparr>poseHistory = [], isStarted = False\<rparr>"

definition MotionValidator_reset :: "MotionValidator \<Rightarrow> MotionValidator" where
  "MotionValidator_reset mv = mv\<lparr>poseHistory := [], isStarted := False\<rparr>"

definition getAxis :: "ChallengeDirection \<Rightarrow> Axis" where
  "getAxis direction =
     (if direction = turnLeft \<or> direction = turnRight then AxisYaw else AxisPitch)"

fun getExpectedSign :: "ChallengeDirection \<Rightarrow> real" where
  "getExpectedSign turnLeft = 1"
| "getExpectedSign turnRight = -1"
| "getExpectedSign lookUp = -1"
| "getExpectedSign lookDown = 1"

definition getAxisValue :: "HeadPose \<Rightarrow> Axis \<Rightarrow> real" where
  "getAxisValue pose axis = (if axis = AxisYaw then yaw pose else pitch pose)"

text \<open>
  The string of the rejection; the dash of the source is U+2014, three bytes in UTF-8.
\<close>

definition emDash :: string where
  "emDash = [CHR 0xE2, CHR 0x80, CHR 0x94]"

definition suddenMovementReason :: string where
  "suddenMovementReason =
     ''Sudden movement detected '' @ emDash @ '' please move slowly''"

text \<open>
  First loop of \<open>validate\<close>: \<open>i\<close> runs from 1 over the consecutive pairs
  \<open>(history[i - 1], history[i])\<close>, and the loop is left at the first pair whose
  absolute difference on the axis is above \<open>MAX_FRAME_DELTA\<close>. The recursion walks the
  same pairs in the same order; \<open>True\<close> is the early return.
\<close>

fun suddenJump :: "HeadPose list \<Rightarrow> Axis \<Rightarrow> bool" where
  "suddenJump (p # q # rest) axis =
     (if \<bar>getAxisValue q axis - getAxisValue p axis\<bar> > MAX_FRAME_DELTA then True
      else suddenJump (q # rest) axis)"
| "suddenJump _ axis = False"

text \<open>Second loop of \<open>validate\<close>: the value of \<open>correctDirectionCount\<close> at its end.\<close>

fun correctDirectionCount :: "HeadPose list \<Rightarrow> Axis \<Rightarrow> real \<Rightarrow> nat" where
  "correctDirectionCount (p # q # rest) axis expectedSign =
     (if (getAxisValue q axis - getAxisValue p axis) * expectedSign > 0
      then Suc (correctDirectionCount (q # rest) axis expectedSign)
      else correctDirectionCount (q # rest) axis expectedSign)"
| "correctDirectionCount _ axis expectedSign = 0"

text \<open>
  \<open>validate\<close> is only called by \<open>addFrame\<close>, on a history of at least six poses, so
  \<open>history[0]\<close> and \<open>history[history.length - 1]\<close> are in range and
  \<open>history.length - 1\<close> is not zero.
\<close>

definition validate :: "MotionValidator \<Rightarrow> ChallengeDirection \<Rightarrow> MotionResult" where
  "validate mv direction =
     (let history = poseHistory mv;
          axis = getAxis direction;
          expectedSign = getExpectedSign direction
      in if suddenJump history axis
         then \<lparr>isValid = False, progress = 0, rejectionReason = Some suddenMovementReason\<rparr>
         else
           let first = getAxisValue (history ! 0) axis;
               last = getAxisValue (history ! (length history - 1)) axis;
               totalDisplacement = (last - first) * expectedSign;
               directionalRatio =
                 real (correctDirectionCount history axis expectedSign)
                   / real (length history - 1);
               minDisp = getMinDisplacement direction;
               progress = min 1 (max 0 (totalDisplacement / minDisp));
               isValid = (totalDisplacement \<ge> minDisp
                          \<and> directionalRatio \<ge> MIN_DIRECTIONAL_RATIO)
           in \<lparr>isValid = isValid, progress = progress, rejectionReason = None\<rparr>)"

text \<open>
  \<open>addFrame\<close> returns the result and the object after the call.
  \<open>slice(-WINDOW_SIZE)\<close> keeps the last \<open>WINDOW_SIZE\<close> entries.
\<close>

definition pushPose :: "MotionValidator \<Rightarrow> HeadPose \<Rightarrow> MotionValidator" where
  "pushPose mv pose =
     (let mv1 = (if \<not> isStarted mv then mv\<lparr>isStarted := True\<rparr> else mv);
          mv2 = mv1\<lparr>poseHistory := poseHistory mv1 @ [pose]\<rparr>
      in if length (poseHistory mv2) > WINDOW_SIZE
         then mv2\<lparr>poseHistory :=
                drop (length (poseHistory mv2) - WINDOW_SIZE) (poseHistory mv2)\<rparr>
         else mv2)"

definition MotionValidator_addFrame ::
  "MotionValidator \<Rightarrow> HeadPose \<Rightarrow> ChallengeDirection \<Rightarrow> MotionResult \<times> MotionValidator" where
  "MotionValidator_addFrame mv pose direction =
     (let mv' = pushPose mv pose
      in if length (poseHistory mv') < 6
         then (\<lparr>isValid = False, progress = 0, rejectionReason = None\<rparr>, mv')
         else (validate mv' direction, mv'))"


section \<open>blinkDetector.ts\<close>

text \<open>
  The module \<open>lib/blinkDetector\<close>; its text follows the face selector in
  \<open>src/lib/faceSelector.ts\<close>.
\<close>

text \<open>
  \<open>Category\<close> and \<open>Classifications\<close> of the MediaPipe library, with the fields the
  detector reads.
\<close>

record Category =
  score :: real
  categoryName :: string

record Classifications =
  categories :: "Category list"

definition BLINK_THRESHOLD :: real where
  "BLINK_THRESHOLD = 0.4"

definition OPEN_THRESHOLD :: real where
  "OPEN_THRESHOLD = 0.2"

datatype BlinkPhase = waiting | eyes_closed | detected

record BlinkDetector =
  phase :: BlinkPhase

definition BlinkDetector_new :: BlinkDetector where
  "BlinkDetector_new = \<lparr>phase = waiting\<rparr>"

definition BlinkDetector_reset :: "BlinkDetector \<Rightarrow> BlinkDetector" where
  "BlinkDetector_reset bd = bd\<lparr>phase := waiting\<rparr>"

definition isDetected :: "BlinkDetector \<Rightarrow> bool" where
  "isDetected bd = (phase bd = detected)"

text \<open>
  \<open>addFrame\<close> of the blink detector. The argument is \<open>None\<close> for \<open>undefined\<close> or
  \<open>null\<close>; an entry of the array is \<open>None\<close> when it is \<open>undefined\<close> (the face
  selector builds such an array from an index beyond the end), and then
  \<open>blendshapes[0].categories\<close> throws. \<open>Array.find\<close> gives the first match, as
  \<^const>\<open>find\<close> does. The \<open>switch\<close> has no branch for \<open>detected\<close>: that phase has
  already returned.
\<close>

definition BlinkDetector_addFrame ::
  "BlinkDetector \<Rightarrow> Classifications option list option \<Rightarrow> error + bool \<times> BlinkDetector" where
  "BlinkDetector_addFrame bd blendshapes =
     (if phase bd = detected then Inr (True, bd)
      else case blendshapes of
        None \<Rightarrow> Inr (False, bd)
      | Some [] \<Rightarrow> Inr (False, bd)
      | Some (None # _) \<Rightarrow> Inl TypeError
      | Some (Some c0 # _) \<Rightarrow>
          let shapes = categories c0;
              leftBlink = find (\<lambda>c. categoryName c = ''eyeBlinkLeft'') shapes;
              rightBlink = find (\<lambda>c. categoryName c = ''eyeBlinkRight'') shapes
          in (case (leftBlink, rightBlink) of
                (Some l, Some r) \<Rightarrow>
                  let leftScore = score l;
                      rightScore = score r
                  in (case phase bd of
                        waiting \<Rightarrow>
                          if leftScore > BLINK_THRESHOLD \<and> rightScore > BLINK_THRESHOLD
                          then Inr (False, bd\<lparr>phase := eyes_closed\<rparr>)
                          else Inr (False, bd)
                      | eyes_closed \<Rightarrow>
                          if leftScore < OPEN_THRESHOLD \<and> rightScore < OPEN_THRESHOLD
                          then Inr (True, bd\<lparr>phase := detected\<rparr>)
                          else Inr (False, bd)
                      | detected \<Rightarrow> Inr (False, bd))
              | _ \<Rightarrow> Inr (False, bd)))"



section \<open>poseAnalyzer.ts: extractHeadPose\<close>

definition IDX_NOSE_TIP :: nat where "IDX_NOSE_TIP = 1"
definition IDX_LEFT_EYE_OUTER :: nat where "IDX_LEFT_EYE_OUTER = 33"
definition IDX_RIGHT_EYE_OUTER :: nat where "IDX_RIGHT_EYE_OUTER = 263"
definition IDX_CHIN :: nat where "IDX_CHIN = 152"
definition IDX_FOREHEAD :: nat where "IDX_FOREHEAD = 10"

text \<open>
  Each of the five landmarks has a coordinate read unconditionally, so a missing one
  (an array too short) throws.
\<close>

definition extractHeadPose :: "NormalizedLandmark list \<Rightarrow> error + HeadPose" where
  "extractHeadPose lms =
     (case (elemAt lms IDX_NOSE_TIP, elemAt lms IDX_LEFT_EYE_OUTER,
            elemAt lms IDX_RIGHT_EYE_OUTER, elemAt lms IDX_CHIN, elemAt lms IDX_FOREHEAD) of
        (Some nose, Some leftEye, Some rightEye, Some chin, Some forehead) \<Rightarrow>
          let eyeMidX = (x leftEye + x rightEye) / 2;
              interEyeDistance = \<bar>x rightEye - x leftEye\<bar>;
              yaw = (if interEyeDistance > 0.001
                     then (x nose - eyeMidX) / interEyeDistance else 0);
              eyeMidY = (y leftEye + y rightEye) / 2;
              faceHeight = \<bar>y chin - y forehead\<bar>;
              pitch = (if faceHeight > 0.001
                       then (y nose - eyeMidY) / faceHeight else 0)
          in Inr \<lparr>yaw = yaw, pitch = pitch, noseTip = (x nose, y nose)\<rparr>
      | _ \<Rightarrow> Inl TypeError)"


section \<open>faceSelector.ts\<close>

definition IDX_LEFT_CHEEK :: nat where "IDX_LEFT_CHEEK = 234"
definition IDX_RIGHT_CHEEK :: nat where "IDX_RIGHT_CHEEK = 454"

definition faceArea :: "NormalizedLandmark list \<Rightarrow> error + real" where
  "faceArea lms =
     (case (elemAt lms IDX_FOREHEAD, elemAt lms IDX_CHIN,
            elemAt lms IDX_LEFT_CHEEK, elemAt lms IDX_RIGHT_CHEEK) of
        (Some top', Some bottom, Some left, Some right) \<Rightarrow>
          let width = \<bar>x right - x left\<bar>;
              height = \<bar>y bottom - y top'\<bar>
          in Inr (width * height)
      | _ \<Rightarrow> Inl TypeError)"

record SelectedFace =
  landmarks :: "NormalizedLandmark list"
  blendshapes :: "Classifications option list option"
  faceIndex :: nat

text \<open>
  The loop of \<open>selectLargestFace\<close>, from index \<open>i\<close> on: the first argument is the
  rest of the array, \<open>bestIndex\<close> and \<open>bestArea\<close> are the loop's variables.
\<close>

fun selectLoop ::
  "NormalizedLandmark list list \<Rightarrow> nat \<Rightarrow> nat \<Rightarrow> real \<Rightarrow> error + nat \<times> real" where
  "selectLoop [] i bestIndex bestArea = Inr (bestIndex, bestArea)"
| "selectLoop (f # fs) i bestIndex bestArea =
     (case faceArea f of
        Inl e \<Rightarrow> Inl e
      | Inr area \<Rightarrow>
          if area > bestArea then selectLoop fs (Suc i) i area
          else selectLoop fs (Suc i) bestIndex bestArea)"

text \<open>
  \<open>None\<close> is \<open>null\<close>. The blendshapes argument is \<open>None\<close> when it is \<open>undefined\<close> or
  \<open>null\<close>; any array is truthy. \<open>bestIndex\<close> is an index of \<open>faceLandmarks\<close>
  (lemma \<open>selectLoop_invariant\<close> below), \<open>faceBlendshapes[bestIndex]\<close> may be beyond the end.
\<close>

definition selectLargestFace ::
  "NormalizedLandmark list list \<Rightarrow> Classifications list option
     \<Rightarrow> error + SelectedFace option" where
  "selectLargestFace fls fbs =
     (if fls = [] then Inr None
      else case selectLoop fls 0 0 (-1) of
        Inl e \<Rightarrow> Inl e
      | Inr (bestIndex, bestArea) \<Rightarrow>
          Inr (Some \<lparr>landmarks = fls ! bestIndex,
                     blendshapes = (case fbs of
                                      None \<Rightarrow> None
                                    | Some bs \<Rightarrow> Some [elemAt bs bestIndex]),
                     faceIndex = bestIndex\<rparr>))"


section \<open>useFaceLiveness.ts\<close>

text \<open>The hook \<open>hooks/useFaceLiveness\<close> that the component \<open>LivenessCam\<close> imports.\<close>

datatype ChallengeStep = center | head ChallengeDirection | blink

text \<open>
  The two status types of the source share the literals \<open>success\<close> and \<open>failed\<close>;
  those of the step status carry the prefix \<open>Step\<close> here.
\<close>

datatype OverallStatus = Loading | Ready | Running | Success | Failed

datatype StepStatus = Pending | Active | StepSuccess | StepFailed

record LivenessState =
  overallStatus :: OverallStatus
  currentStepIndex :: nat
  stepStatus :: StepStatus
  feedbackMessage :: string
  motionProgress :: real
  isFaceDetected :: bool
  timeRemaining :: real

definition STEP_TIMEOUT_MS :: int where
  "STEP_TIMEOUT_MS = 5000"

definition CENTER_YAW_THRESHOLD :: real where
  "CENTER_YAW_THRESHOLD = 0.25"

definition CENTER_PITCH_THRESHOLD :: real where
  "CENTER_PITCH_THRESHOLD = 0.20"

definition CENTER_HOLD_FRAMES :: nat where
  "CENTER_HOLD_FRAMES = 15"

text \<open>The symbols of the messages beyond ASCII, as their UTF-8 bytes.\<close>

definition ellipsis :: string where "ellipsis = [CHR 0xE2, CHR 0x80, CHR 0xA6]"
definition checkMark :: string where "checkMark = [CHR 0xE2, CHR 0x9C, CHR 0x93]"
definition checkBox :: string where "checkBox = [CHR 0xE2, CHR 0x9C, CHR 0x85]"
definition crossMark :: string where "crossMark = [CHR 0xE2, CHR 0x9D, CHR 0x8C]"
definition alarmClock :: string where "alarmClock = [CHR 0xE2, CHR 0x8F, CHR 0xB0]"
definition eyeSign :: string where
  "eyeSign = [CHR 0xF0, CHR 0x9F, CHR 0x91, CHR 0x81, CHR 0xEF, CHR 0xB8, CHR 0x8F]"
definition arrowLeft :: string where "arrowLeft = [CHR 0xE2, CHR 0x86, CHR 0x90]"
definition arrowUp :: string where "arrowUp = [CHR 0xE2, CHR 0x86, CHR 0x91]"
definition arrowRight :: string where "arrowRight = [CHR 0xE2, CHR 0x86, CHR 0x92]"
definition arrowDown :: string where "arrowDown = [CHR 0xE2, CHR 0x86, CHR 0x93]"

fun getInstructionMessage :: "ChallengeStep \<Rightarrow> string" where
  "getInstructionMessage center = ''Look straight at the camera''"
| "getInstructionMessage blink = ''Please blink naturally '' @ eyeSign"
| "getInstructionMessage (head turnLeft) = arrowLeft @ '' Turn your head LEFT slowly''"
| "getInstructionMessage (head turnRight) = arrowRight @ '' Turn your head RIGHT slowly''"
| "getInstructionMessage (head lookUp) = arrowUp @ '' Look UP slowly''"
| "getInstructionMessage (head lookDown) = arrowDown @ '' Look DOWN slowly''"

definition timeExpiredMessage :: string where
  "timeExpiredMessage =
     alarmClock @ '' Time expired '' @ emDash @ '' please try again''"

text \<open>
  The hook: the React state and the refs that the callbacks share. \<open>timers\<close> holds the
  callbacks that \<open>setTimeout\<close> has scheduled and that have not run yet, each with the
  \<open>nextIndex\<close> it has captured. \<open>setState\<close> with an updater function applies the
  updaters in the order of the calls.
\<close>

record Hook =
  state :: LivenessState
  motionValidator :: MotionValidator
  blinkDetector :: BlinkDetector
  centerFrames :: nat
  stepStartTime :: int
  currentStepRef :: nat
  isRunningRef :: bool
  hasAdvanced :: bool
  timers :: "nat list"

definition Hook_new :: Hook where
  "Hook_new =
     \<lparr>state = \<lparr>overallStatus = Loading, currentStepIndex = 0, stepStatus = Pending,
               feedbackMessage = ''Loading face detection models'' @ ellipsis,
               motionProgress = 0, isFaceDetected = False,
               timeRemaining = real_of_int STEP_TIMEOUT_MS / 1000\<rparr>,
      motionValidator = MotionValidator_new,
      blinkDetector = BlinkDetector_new,
      centerFrames = 0, stepStartTime = 0, currentStepRef = 0,
      isRunningRef = False, hasAdvanced = False, timers = []\<rparr>"

definition setState :: "(LivenessState \<Rightarrow> LivenessState) \<Rightarrow> Hook \<Rightarrow> Hook" where
  "setState f hk = hk\<lparr>state := f (state hk)\<rparr>"

text \<open>\<open>advanceStep\<close>, up to the call of \<open>setTimeout\<close>.\<close>

definition advanceStep :: "ChallengeStep list \<Rightarrow> Hook \<Rightarrow> Hook" where
  "advanceStep challengeSequence hk =
     (if hasAdvanced hk then hk
      else
        let hk1 = hk\<lparr>hasAdvanced := True\<rparr>;
            nextIndex = currentStepRef hk1 + 1
        in if nextIndex \<ge> length challengeSequence
           then (setState (\<lambda>prev. prev\<lparr>stepStatus := StepSuccess, overallStatus := Success,
                                        feedbackMessage := ''Liveness Confirmed '' @ checkBox,
                                        motionProgress := 1\<rparr>) hk1)
                  \<lparr>isRunningRef := False\<rparr>
           else (setState (\<lambda>prev. prev\<lparr>stepStatus := StepSuccess,
                                        feedbackMessage := checkMark @ '' Step complete!'',
                                        motionProgress := 1\<rparr>) hk1)
                  \<lparr>timers := timers hk1 @ [nextIndex]\<rparr>)"

text \<open>
  The callback of \<open>setTimeout\<close> in \<open>advanceStep\<close>, run for the oldest pending timer at
  the time \<open>now\<close>. \<open>getInstructionMessage\<close> of a step beyond the sequence would throw.
\<close>

definition advanceTimer :: "ChallengeStep list \<Rightarrow> int \<Rightarrow> Hook \<Rightarrow> error + Hook" where
  "advanceTimer challengeSequence now hk =
     (case timers hk of
        [] \<Rightarrow> Inr hk
      | nextIndex # rest \<Rightarrow>
          (case elemAt challengeSequence nextIndex of
             None \<Rightarrow> Inl TypeError
           | Some nextStep \<Rightarrow>
               Inr (setState (\<lambda>prev. prev\<lparr>currentStepIndex := nextIndex, stepStatus := Active,
                                          feedbackMessage := getInstructionMessage nextStep,
                                          motionProgress := 0,
                                          timeRemaining := real_of_int STEP_TIMEOUT_MS / 1000\<rparr>)
                     (hk\<lparr>timers := rest,
                         currentStepRef := nextIndex,
                         hasAdvanced := False,
                         motionValidator := MotionValidator_reset (motionValidator hk),
                         blinkDetector := BlinkDetector_reset (blinkDetector hk),
                         centerFrames := 0,
                         stepStartTime := now\<rparr>))))"

definition failStep :: "string \<Rightarrow> Hook \<Rightarrow> Hook" where
  "failStep reason hk =
     (setState (\<lambda>prev. prev\<lparr>stepStatus := StepFailed, overallStatus := Failed,
                             feedbackMessage := reason, motionProgress := 0\<rparr>) hk)
       \<lparr>isRunningRef := False\<rparr>"

text \<open>\<open>startChallenge\<close> at the time \<open>now\<close>; an empty sequence has no first step.\<close>

definition startChallenge :: "ChallengeStep list \<Rightarrow> int \<Rightarrow> Hook \<Rightarrow> error + Hook" where
  "startChallenge challengeSequence now hk =
     (case elemAt challengeSequence 0 of
        None \<Rightarrow> Inl TypeError
      | Some firstStep \<Rightarrow>
          Inr (hk\<lparr>currentStepRef := 0,
                  hasAdvanced := False,
                  motionValidator := MotionValidator_reset (motionValidator hk),
                  blinkDetector := BlinkDetector_reset (blinkDetector hk),
                  centerFrames := 0,
                  stepStartTime := now,
                  isRunningRef := True,
                  state := \<lparr>overallStatus = Running, currentStepIndex = 0,
                            stepStatus = Active,
                            feedbackMessage = getInstructionMessage firstStep,
                            motionProgress = 0, isFaceDetected = False,
                            timeRemaining = real_of_int STEP_TIMEOUT_MS / 1000\<rparr>\<rparr>))"

definition reset :: "Hook \<Rightarrow> Hook" where
  "reset hk =
     hk\<lparr>currentStepRef := 0,
        hasAdvanced := False,
        motionValidator := MotionValidator_reset (motionValidator hk),
        blinkDetector := BlinkDetector_reset (blinkDetector hk),
        centerFrames := 0,
        isRunningRef := False,
        state := \<lparr>overallStatus = Ready, currentStepIndex = 0, stepStatus = Pending,
                  feedbackMessage = ''Press Start to begin verification'',
                  motionProgress = 0, isFaceDetected = False,
                  timeRemaining = real_of_int STEP_TIMEOUT_MS / 1000\<rparr>\<rparr>"

text \<open>
  What one run of \<open>detectLoop\<close> reads from outside: whether the video and the landmarker
  are ready, the result of \<open>detectForVideo\<close> (\<open>None\<close> when it throws) and \<open>Date.now()\<close>.
\<close>

record FaceLandmarkerResult =
  faceLandmarks :: "NormalizedLandmark list list"
  faceBlendshapes :: "Classifications list option"

record Frame =
  videoReady :: bool
  detectForVideo :: "FaceLandmarkerResult option"
  dateNow :: int

text \<open>The three branches of the dispatch on \<open>step.type\<close> in \<open>detectLoop\<close>.\<close>

definition centerBranch :: "ChallengeStep list \<Rightarrow> HeadPose \<Rightarrow> Hook \<Rightarrow> Hook" where
  "centerBranch challengeSequence pose hk =
     (let isCentered = (\<bar>yaw pose\<bar> < CENTER_YAW_THRESHOLD
                         \<and> \<bar>pitch pose\<bar> < CENTER_PITCH_THRESHOLD)
      in if isCentered
         then
           let hk1 = hk\<lparr>centerFrames := centerFrames hk + 1\<rparr>;
               progress = min 1 (real (centerFrames hk1) / real CENTER_HOLD_FRAMES);
               hk2 = setState (\<lambda>prev. if stepStatus prev = Active
                        then prev\<lparr>motionProgress := progress,
                                 feedbackMessage :=
                                   (if progress < 1
                                    then ''Hold still '' @ emDash @ '' centering'' @ ellipsis
                                    else checkMark @ '' Centered!'')\<rparr>
                        else prev) hk1
           in if centerFrames hk2 \<ge> CENTER_HOLD_FRAMES
              then advanceStep challengeSequence hk2
              else hk2
         else
           setState (\<lambda>prev. if stepStatus prev = Active
                      then prev\<lparr>motionProgress := 0,
                               feedbackMessage := ''Look straight at the camera''\<rparr>
                      else prev)
             (hk\<lparr>centerFrames := 0\<rparr>))"

text \<open>A string is truthy when it is not empty.\<close>

definition headBranch ::
  "ChallengeStep list \<Rightarrow> ChallengeDirection \<Rightarrow> HeadPose \<Rightarrow> Hook \<Rightarrow> Hook" where
  "headBranch challengeSequence direction pose hk =
     (let (motionResult, mv') = MotionValidator_addFrame (motionValidator hk) pose direction;
          hk1 = hk\<lparr>motionValidator := mv'\<rparr>
      in case rejectionReason motionResult of
           Some reason \<Rightarrow>
             if reason \<noteq> [] then failStep (crossMark @ '' '' @ reason) hk1
             else
               let hk2 = setState (\<lambda>prev. if stepStatus prev = Active
                            then prev\<lparr>motionProgress := progress motionResult,
                                     feedbackMessage :=
                                       (if isValid motionResult
                                        then checkMark @ '' Movement detected!''
                                        else getInstructionMessage (head direction))\<rparr>
                            else prev) hk1
               in if isValid motionResult then advanceStep challengeSequence hk2 else hk2
         | None \<Rightarrow>
             let hk2 = setState (\<lambda>prev. if stepStatus prev = Active
                          then prev\<lparr>motionProgress := progress motionResult,
                                   feedbackMessage :=
                                     (if isValid motionResult
                                      then checkMark @ '' Movement detected!''
                                      else getInstructionMessage (head direction))\<rparr>
                          else prev) hk1
             in if isValid motionResult then advanceStep challengeSequence hk2 else hk2)"

definition blinkBranch ::
  "ChallengeStep list \<Rightarrow> Classifications option list option \<Rightarrow> Hook \<Rightarrow> error + Hook" where
  "blinkBranch challengeSequence bshapes hk =
     (case bshapes of
        None \<Rightarrow> Inr hk
      | Some bs \<Rightarrow>
          (case BlinkDetector_addFrame (blinkDetector hk) (Some bs) of
             Inl e \<Rightarrow> Inl e
           | Inr (blinked, bd') \<Rightarrow>
               let hk1 = hk\<lparr>blinkDetector := bd'\<rparr>
               in if blinked
                  then Inr (advanceStep challengeSequence
                             (setState (\<lambda>prev. if stepStatus prev = Active
                                 then prev\<lparr>motionProgress := 1,
                                          feedbackMessage := checkMark @ '' Blink detected!''\<rparr>
                                 else prev) hk1))
                  else Inr (setState (\<lambda>prev. if stepStatus prev = Active
                                 then prev\<lparr>feedbackMessage :=
                                            ''Please blink naturally '' @ eyeSign\<rparr>
                                 else prev) hk1)))"

text \<open>
  One run of \<open>detectLoop\<close>. Every path of the source ends by scheduling the next run
  with \<open>requestAnimationFrame\<close>, except an uncaught exception, which is the \<open>Inl\<close>
  result. \<open>step\<close> is read before the timeout check and only used after
  \<open>extractHeadPose\<close>, where \<open>step.type\<close> throws if the index is beyond the sequence.
\<close>

definition detectLoop :: "ChallengeStep list \<Rightarrow> Hook \<Rightarrow> Frame \<Rightarrow> error + Hook" where
  "detectLoop challengeSequence hk frame =
     (if \<not> videoReady frame then Inr hk
      else case detectForVideo frame of
        None \<Rightarrow> Inr hk
      | Some result \<Rightarrow>
          (case selectLargestFace (faceLandmarks result) (faceBlendshapes result) of
             Inl e \<Rightarrow> Inl e
           | Inr None \<Rightarrow>
               Inr (setState (\<lambda>prev.
                      if isRunningRef hk \<and> stepStatus prev = Active
                      then prev\<lparr>isFaceDetected := False,
                               feedbackMessage :=
                                 ''No face detected '' @ emDash @ '' look at the camera''\<rparr>
                      else prev\<lparr>isFaceDetected := False\<rparr>) hk)
           | Inr (Some selected) \<Rightarrow>
               let hk1 = setState (\<lambda>prev. prev\<lparr>isFaceDetected := True\<rparr>) hk
               in if \<not> isRunningRef hk1 then Inr hk1
                  else
                    let step = elemAt challengeSequence (currentStepRef hk1);
                        elapsed = dateNow frame - stepStartTime hk1;
                        timeRemaining =
                          max 0 (real_of_int (STEP_TIMEOUT_MS - elapsed) / 1000)
                    in if elapsed > STEP_TIMEOUT_MS \<and> \<not> hasAdvanced hk1
                       then Inr (failStep timeExpiredMessage hk1)
                       else
                         let hk2 = setState (\<lambda>prev. if stepStatus prev = Active
                                      then prev\<lparr>timeRemaining := timeRemaining\<rparr>
                                      else prev) hk1
                         in (case extractHeadPose (landmarks selected) of
                               Inl e \<Rightarrow> Inl e
                             | Inr pose \<Rightarrow>
                                 (case step of
                                    None \<Rightarrow> Inl TypeError
                                  | Some center \<Rightarrow>
                                      Inr (centerBranch challengeSequence pose hk2)
                                  | Some (head direction) \<Rightarrow>
                                      Inr (headBranch challengeSequence direction pose hk2)
                                  | Some blink \<Rightarrow>
                                      blinkBranch challengeSequence
                                        (blendshapes selected) hk2))))"



section \<open>Sample data\<close>




text \<open>
  A mesh of 478 landmarks, all at the middle of the image except the seven that the
  pose extractor and the face selector read: nose tip, outer eye corners, chin,
  forehead, and the \<open>x\<close> of the two cheeks.
\<close>

definition sampleMesh ::
  "real \<times> real \<Rightarrow> real \<times> real \<Rightarrow> real \<times> real \<Rightarrow> real \<times> real \<Rightarrow> real \<times> real
     \<Rightarrow> real \<Rightarrow> real \<Rightarrow> NormalizedLandmark list" where
  "sampleMesh nose leftEye rightEye chin forehead leftCheekX rightCheekX =
     (replicate 478 \<lparr>x = 0.5, y = 0.5, z = 0\<rparr>)
       [1 := \<lparr>x = fst nose, y = snd nose, z = 0\<rparr>,
        33 := \<lparr>x = fst leftEye, y = snd leftEye, z = 0\<rparr>,
        263 := \<lparr>x = fst rightEye, y = snd rightEye, z = 0\<rparr>,
        152 := \<lparr>x = fst chin, y = snd chin, z = 0\<rparr>,
        10 := \<lparr>x = fst forehead, y = snd forehead, z = 0\<rparr>,
        234 := \<lparr>x = leftCheekX, y = 0.5, z = 0\<rparr>,
        454 := \<lparr>x = rightCheekX, y = 0.5, z = 0\<rparr>]"





text \<open>
  A challenge sequence, the hook after \<open>startChallenge\<close> at time 0, a frame in which no
  face is detected and a frame with one face that looks straight at the camera.
\<close>

definition sampleSequence :: "ChallengeStep list" where
  "sampleSequence = [center, head turnLeft, blink, head lookUp, blink, head turnRight, blink]"

definition runningHook :: Hook where
  "runningHook =
     (case startChallenge sampleSequence 0 Hook_new of Inr hk \<Rightarrow> hk | Inl e \<Rightarrow> Hook_new)"

definition noFaceFrame :: "int \<Rightarrow> Frame" where
  "noFaceFrame now =
     \<lparr>videoReady = True,
      detectForVideo = Some \<lparr>faceLandmarks = [], faceBlendshapes = Some []\<rparr>,
      dateNow = now\<rparr>"

definition centeredFrame :: "int \<Rightarrow> Frame" where
  "centeredFrame now =
     \<lparr>videoReady = True,
      detectForVideo =
        Some \<lparr>faceLandmarks =
                 [sampleMesh (0.5, 0.4) (0.4, 0.4) (0.6, 0.4) (0.5, 0.7) (0.5, 0.2) 0.3 0.7],
               faceBlendshapes = Some [\<lparr>categories = []\<rparr>]\<rparr>,
      dateNow = now\<rparr>"




section \<open>Properties of the motion validator\<close>






lemma pushPose_history:
  "poseHistory (pushPose mv pose) =
     drop (length (poseHistory mv) + 1 - WINDOW_SIZE) (poseHistory mv @ [pose])"
  by (simp add: pushPose_def Let_def)

lemma count_le: "correctDirectionCount h axis sg \<le> length h - 1"
  by (induction h axis sg rule: correctDirectionCount.induct) auto










lemma clamp_bounds: "0 \<le> min 1 (max 0 (a::real)) \<and> min 1 (max 0 a) \<le> 1"
  by simp




subsection \<open>Jump rejection\<close>



subsection \<open>Acceptance of a smooth turn\<close>



subsection \<open>Progress\<close>



subsection \<open>The axis that is not selected\<close>




section \<open>Properties of the blink detector\<close>



lemma blink_addFrame_true_iff:
  "BlinkDetector_addFrame bd input = Inr (b, bd') \<Longrightarrow> b \<longleftrightarrow> phase bd' = detected"
  by (auto simp: BlinkDetector_addFrame_def Let_def
        split: if_splits option.splits list.splits BlinkPhase.splits)

lemma blink_addFrame_stays_detected:
  "BlinkDetector_addFrame bd input = Inr (b, bd') \<Longrightarrow> phase bd = detected \<Longrightarrow> phase bd' = detected"
  by (simp add: BlinkDetector_addFrame_def)


subsection \<open>The blink cycle\<close>



subsection \<open>Missing scores\<close>

text \<open>
  Claim C9, as the code has it. A call of \<open>addFrame\<close> with no blendshapes, with an empty
  array, or with a first entry that lacks the \<open>eyeBlinkLeft\<close> or the \<open>eyeBlinkRight\<close>
  category changes the phase in no phase. It returns false in \<open>waiting\<close> and
  \<open>eyes_closed\<close>, and true in \<open>detected\<close>, where the detector answers before it looks
  at its input.
\<close>

theorem missing_scores_no_transition:
  fixes bd :: BlinkDetector and input :: "Classifications option list option"
  assumes "input = None \<or> input = Some []
           \<or> (\<exists>c0 rest. input = Some (Some c0 # rest)
                \<and> (find (\<lambda>c. categoryName c = ''eyeBlinkLeft'') (categories c0) = None
                   \<or> find (\<lambda>c. categoryName c = ''eyeBlinkRight'') (categories c0) = None))"
  shows "BlinkDetector_addFrame bd input = Inr (phase bd = detected, bd)"
  using assms
  by (auto simp: BlinkDetector_addFrame_def Let_def split: option.splits)

theorem missing_scores_no_transition_witness:
  "BlinkDetector_addFrame \<lparr>phase = eyes_closed\<rparr>
      (Some [Some \<lparr>categories = [\<lparr>score = 0.1, categoryName = ''eyeBlinkLeft''\<rparr>]\<rparr>])
     = Inr (False, \<lparr>phase = eyes_closed\<rparr>)
   \<and> BlinkDetector_addFrame \<lparr>phase = waiting\<rparr> None = Inr (False, \<lparr>phase = waiting\<rparr>)
   \<and> BlinkDetector_addFrame \<lparr>phase = detected\<rparr> (Some []) = Inr (True, \<lparr>phase = detected\<rparr>)"
proof -
  let ?c0 = "\<lparr>categories = [\<lparr>score = 0.1, categoryName = ''eyeBlinkLeft''\<rparr>]\<rparr>"
  have "find (\<lambda>c. categoryName c = ''eyeBlinkRight'') (categories ?c0) = None"
    by simp
  then have "\<exists>c0 rest. Some [Some ?c0] = Some (Some c0 # rest)
                \<and> (find (\<lambda>c. categoryName c = ''eyeBlinkLeft'') (categories c0) = None
                   \<or> find (\<lambda>c. categoryName c = ''eyeBlinkRight'') (categories c0) = None)"
    by blast
  then have A: "BlinkDetector_addFrame \<lparr>phase = eyes_closed\<rparr> (Some [Some ?c0])
     = Inr (False, \<lparr>phase = eyes_closed\<rparr>)"
    using missing_scores_no_transition[of "Some [Some ?c0]" "\<lparr>phase = eyes_closed\<rparr>"]
    by simp
  have B: "BlinkDetector_addFrame \<lparr>phase = waiting\<rparr> None = Inr (False, \<lparr>phase = waiting\<rparr>)"
    using missing_scores_no_transition[of None "\<lparr>phase = waiting\<rparr>"] by simp
  have C: "BlinkDetector_addFrame \<lparr>phase = detected\<rparr> (Some []) = Inr (True, \<lparr>phase = detected\<rparr>)"
    using missing_scores_no_transition[of "Some []" "\<lparr>phase = detected\<rparr>"] by simp
  from A B C show ?thesis by simp
qed

text \<open>
  Claim C9 as stated asks for false in every phase; in \<open>detected\<close> a call with no
  blendshapes returns true.
\<close>

theorem missing_scores_detected_counterexample:
  "BlinkDetector_addFrame \<lparr>phase = detected\<rparr> None = Inr (True, \<lparr>phase = detected\<rparr>)"
  by (simp add: BlinkDetector_addFrame_def)


section \<open>Properties of the pose extractor\<close>

lemma elemAt_Some: "i < length xs \<Longrightarrow> elemAt xs i = Some (xs ! i)"
  by (simp add: elemAt_def)

lemma elemAt_None: "\<not> i < length xs \<Longrightarrow> elemAt xs i = None"
  by (simp add: elemAt_def)

lemma extractHeadPose_total:
  "(\<exists>p. extractHeadPose lms = Inr p) \<longleftrightarrow> 263 < length lms"
  by (auto simp: extractHeadPose_def elemAt_def Let_def IDX_NOSE_TIP_def IDX_LEFT_EYE_OUTER_def
        IDX_RIGHT_EYE_OUTER_def IDX_CHIN_def IDX_FOREHEAD_def split: if_splits)

lemma sampleMesh_length: "length (sampleMesh a b c d e f g) = 478"
  by (simp add: sampleMesh_def)






section \<open>Properties of the face selector\<close>

lemma faceArea_wf:
  "454 < length f \<Longrightarrow>
     faceArea f = Inr (\<bar>x (f ! 454) - x (f ! 234)\<bar> * \<bar>y (f ! 152) - y (f ! 10)\<bar>)"
  by (simp add: faceArea_def elemAt_def Let_def IDX_FOREHEAD_def IDX_CHIN_def
        IDX_LEFT_CHEEK_def IDX_RIGHT_CHEEK_def)

lemma faceArea_nonneg: "faceArea f = Inr a \<Longrightarrow> 0 \<le> a"
  by (auto simp: faceArea_def Let_def split: option.splits)


lemma selectLoop_error:
  "selectLoop fs i bi ba = Inl e \<Longrightarrow> fs \<noteq> []"
  by (cases fs) auto









section \<open>Properties of the challenge orchestrator\<close>

lemma runningHook_eq:
  "runningHook =
     \<lparr>state = \<lparr>overallStatus = Running, currentStepIndex = 0, stepStatus = Active,
               feedbackMessage = ''Look straight at the camera'',
               motionProgress = 0, isFaceDetected = False, timeRemaining = 5\<rparr>,
      motionValidator = \<lparr>poseHistory = [], isStarted = False\<rparr>,
      blinkDetector = \<lparr>phase = waiting\<rparr>,
      centerFrames = 0, stepStartTime = 0, currentStepRef = 0,
      isRunningRef = True, hasAdvanced = False, timers = []\<rparr>"
  by (simp add: runningHook_def startChallenge_def sampleSequence_def elemAt_def Hook_new_def
        MotionValidator_reset_def MotionValidator_new_def BlinkDetector_reset_def
        BlinkDetector_new_def STEP_TIMEOUT_MS_def)

lemma detectLoop_timeout:
  assumes "videoReady frame" "detectForVideo frame = Some result"
    and "selectLargestFace (faceLandmarks result) (faceBlendshapes result) = Inr (Some selected)"
    and "isRunningRef hk" "\<not> hasAdvanced hk"
    and "dateNow frame - stepStartTime hk > STEP_TIMEOUT_MS"
  shows "detectLoop sq hk frame =
     Inr (failStep timeExpiredMessage (setState (\<lambda>prev. prev\<lparr>isFaceDetected := True\<rparr>) hk))"
  using assms by (simp add: detectLoop_def Let_def setState_def)

lemma detectLoop_not_running:
  "\<not> isRunningRef hk \<Longrightarrow> detectLoop sq hk frame = Inr hk' \<Longrightarrow>
     overallStatus (state hk') = overallStatus (state hk) \<and> \<not> isRunningRef hk'"
  by (auto simp: detectLoop_def Let_def setState_def
        split: if_splits option.splits sum.splits)

lemma detectLoop_no_face:
  assumes "\<not> videoReady frame \<or> detectForVideo frame = None
           \<or> (\<exists>result. detectForVideo frame = Some result \<and> faceLandmarks result = [])"
  shows "\<exists>hk'. detectLoop sq hk frame = Inr hk'
           \<and> overallStatus (state hk') = overallStatus (state hk)
           \<and> stepStatus (state hk') = stepStatus (state hk)
           \<and> isRunningRef hk' = isRunningRef hk
           \<and> hasAdvanced hk' = hasAdvanced hk
           \<and> stepStartTime hk' = stepStartTime hk"
  using assms
  by (auto simp: detectLoop_def Let_def setState_def selectLargestFace_def)

lemma sampleMesh_select:
  "selectLargestFace [sampleMesh a b c d e f g] fbs =
     Inr (Some \<lparr>landmarks = sampleMesh a b c d e f g,
                blendshapes = (case fbs of None \<Rightarrow> None | Some bs \<Rightarrow> Some [elemAt bs 0]),
                faceIndex = 0\<rparr>)"
  by (simp add: selectLargestFace_def faceArea_wf sampleMesh_length)

text \<open>
  The ref \<open>isRunningRef\<close> and the status of the React state go together: the session is
  running in the one exactly when it is in the other, and while it runs the step is
  active exactly when it has not advanced. \<open>detectLoop\<close> keeps this.
\<close>

lemma advanceStep_inv:
  assumes "isRunningRef hk \<longleftrightarrow> overallStatus (state hk) = Running"
    and "isRunningRef hk \<longrightarrow> (stepStatus (state hk) = Active \<longleftrightarrow> \<not> hasAdvanced hk)"
  shows "(isRunningRef (advanceStep sq hk) \<longleftrightarrow> overallStatus (state (advanceStep sq hk)) = Running)
       \<and> (isRunningRef (advanceStep sq hk) \<longrightarrow>
            (stepStatus (state (advanceStep sq hk)) = Active \<longleftrightarrow> \<not> hasAdvanced (advanceStep sq hk)))"
  using assms by (auto simp: advanceStep_def Let_def setState_def)

lemma failStep_inv:
  "(isRunningRef (failStep r hk) \<longleftrightarrow> overallStatus (state (failStep r hk)) = Running)
   \<and> (isRunningRef (failStep r hk) \<longrightarrow>
        (stepStatus (state (failStep r hk)) = Active \<longleftrightarrow> \<not> hasAdvanced (failStep r hk)))"
  by (simp add: failStep_def setState_def)

lemma setState_guarded_inv:
  assumes "isRunningRef hk \<longleftrightarrow> overallStatus (state hk) = Running"
    and "isRunningRef hk \<longrightarrow> (stepStatus (state hk) = Active \<longleftrightarrow> \<not> hasAdvanced hk)"
    and "\<And>prev. overallStatus (g prev) = overallStatus prev \<and> stepStatus (g prev) = stepStatus prev"
  shows "(isRunningRef (setState g hk) \<longleftrightarrow> overallStatus (state (setState g hk)) = Running)
       \<and> (isRunningRef (setState g hk) \<longrightarrow>
            (stepStatus (state (setState g hk)) = Active \<longleftrightarrow> \<not> hasAdvanced (setState g hk)))"
  using assms by (simp add: setState_def)

lemma detectLoop_inv:
  assumes "isRunningRef hk \<longleftrightarrow> overallStatus (state hk) = Running"
    and "isRunningRef hk \<longrightarrow> (stepStatus (state hk) = Active \<longleftrightarrow> \<not> hasAdvanced hk)"
    and "detectLoop sq hk frame = Inr hk'"
  shows "(isRunningRef hk' \<longleftrightarrow> overallStatus (state hk') = Running)
       \<and> (isRunningRef hk' \<longrightarrow> (stepStatus (state hk') = Active \<longleftrightarrow> \<not> hasAdvanced hk'))"
  using assms
  by (auto simp: detectLoop_def Let_def setState_def failStep_def advanceStep_def
        centerBranch_def headBranch_def blinkBranch_def
        split: if_splits option.splits sum.splits prod.splits ChallengeStep.splits)

subsection \<open>Step timeout\<close>

text \<open>
  Claim C4, as the code has it. While the session is running and the step has not
  advanced, a run of \<open>detectLoop\<close> at a time more than 5000 ms after the start of the
  step, in which a face is selected (the video is ready, the detection does not throw
  and finds at least one face), fails the session: the overall status becomes
  \<open>Failed\<close>, the step status \<open>StepFailed\<close>, the message is the time-expired message,
  and no later run of \<open>detectLoop\<close> leaves \<open>Failed\<close>, so the step is not tried again.
  A run in which no face is selected (video not ready, detection throws, or no face
  found) does not look at the time: the session stays as it is, running and with the
  same start of the step, however long ago that start is.
\<close>

theorem step_timeout_fails_session:
  fixes sq :: "ChallengeStep list" and hk :: Hook and frame :: Frame
  assumes "isRunningRef hk" and "\<not> hasAdvanced hk"
      and "dateNow frame - stepStartTime hk > 5000"
  shows "(\<forall>result selected.
            videoReady frame \<and> detectForVideo frame = Some result
            \<and> selectLargestFace (faceLandmarks result) (faceBlendshapes result)
                = Inr (Some selected)
            \<longrightarrow> (\<exists>hk'. detectLoop sq hk frame = Inr hk'
                   \<and> overallStatus (state hk') = Failed
                   \<and> stepStatus (state hk') = StepFailed
                   \<and> feedbackMessage (state hk') = timeExpiredMessage
                   \<and> \<not> isRunningRef hk'
                   \<and> (\<forall>frame' hk''. detectLoop sq hk' frame' = Inr hk''
                         \<longrightarrow> overallStatus (state hk'') = Failed \<and> \<not> isRunningRef hk'')))
       \<and> (\<not> videoReady frame \<or> detectForVideo frame = None
            \<or> (\<exists>result. detectForVideo frame = Some result \<and> faceLandmarks result = [])
            \<longrightarrow> (\<exists>hk'. detectLoop sq hk frame = Inr hk'
                   \<and> overallStatus (state hk') = overallStatus (state hk)
                   \<and> stepStatus (state hk') = stepStatus (state hk)
                   \<and> isRunningRef hk'
                   \<and> \<not> hasAdvanced hk'
                   \<and> stepStartTime hk' = stepStartTime hk))"
proof -
  have A: "\<exists>hk'. detectLoop sq hk frame = Inr hk'
                   \<and> overallStatus (state hk') = Failed
                   \<and> stepStatus (state hk') = StepFailed
                   \<and> feedbackMessage (state hk') = timeExpiredMessage
                   \<and> \<not> isRunningRef hk'
                   \<and> (\<forall>frame' hk''. detectLoop sq hk' frame' = Inr hk''
                         \<longrightarrow> overallStatus (state hk'') = Failed \<and> \<not> isRunningRef hk'')"
    if face: "videoReady frame" "detectForVideo frame = Some result"
      "selectLargestFace (faceLandmarks result) (faceBlendshapes result) = Inr (Some selected)"
    for result selected
  proof -
    let ?hk' = "failStep timeExpiredMessage (setState (\<lambda>prev. prev\<lparr>isFaceDetected := True\<rparr>) hk)"
    have eq: "detectLoop sq hk frame = Inr ?hk'"
      using assms by (intro detectLoop_timeout[OF face]) (simp_all add: STEP_TIMEOUT_MS_def)
    have props: "overallStatus (state ?hk') = Failed" "stepStatus (state ?hk') = StepFailed"
      "feedbackMessage (state ?hk') = timeExpiredMessage" "\<not> isRunningRef ?hk'"
      by (simp_all add: failStep_def setState_def)
    have later: "overallStatus (state hk'') = Failed \<and> \<not> isRunningRef hk''"
      if "detectLoop sq ?hk' frame' = Inr hk''" for frame' hk''
      using detectLoop_not_running[OF props(4) that] props(1) by simp
    from eq props later show ?thesis by blast
  qed
  have B: "\<not> videoReady frame \<or> detectForVideo frame = None
            \<or> (\<exists>result. detectForVideo frame = Some result \<and> faceLandmarks result = [])
            \<longrightarrow> (\<exists>hk'. detectLoop sq hk frame = Inr hk'
                   \<and> overallStatus (state hk') = overallStatus (state hk)
                   \<and> stepStatus (state hk') = stepStatus (state hk)
                   \<and> isRunningRef hk'
                   \<and> \<not> hasAdvanced hk'
                   \<and> stepStartTime hk' = stepStartTime hk)"
    using detectLoop_no_face[of frame sq hk] assms(1,2) by auto
  from A B show ?thesis by blast
qed

text \<open>
  The running sample session at 5001 ms: with a face the session fails, with no face it
  only reports that no face is detected.
\<close>

theorem step_timeout_fails_session_witness:
  "detectLoop sampleSequence runningHook (centeredFrame 5001)
     = Inr (runningHook\<lparr>isRunningRef := False,
              state := (state runningHook)\<lparr>isFaceDetected := True, stepStatus := StepFailed,
                 overallStatus := Failed, feedbackMessage := timeExpiredMessage,
                 motionProgress := 0\<rparr>\<rparr>)
   \<and> detectLoop sampleSequence runningHook (noFaceFrame 5001)
     = Inr (runningHook\<lparr>state := (state runningHook)\<lparr>isFaceDetected := False,
                 feedbackMessage :=
                   ''No face detected '' @ emDash @ '' look at the camera''\<rparr>\<rparr>)"
proof -
  have hyp: "isRunningRef runningHook" "\<not> hasAdvanced runningHook"
    "dateNow (centeredFrame 5001) - stepStartTime runningHook > 5000"
    "dateNow (noFaceFrame 5001) - stepStartTime runningHook > 5000"
    by (simp_all add: runningHook_eq centeredFrame_def noFaceFrame_def)
  have "\<exists>hk'. detectLoop sampleSequence runningHook (centeredFrame 5001) = Inr hk'
          \<and> overallStatus (state hk') = Failed"
    using step_timeout_fails_session[OF hyp(1,2,3), of sampleSequence]
    by (simp add: centeredFrame_def sampleMesh_select) blast
  moreover have "\<exists>hk'. detectLoop sampleSequence runningHook (noFaceFrame 5001) = Inr hk'
          \<and> overallStatus (state hk') = Running \<and> isRunningRef hk'"
    using step_timeout_fails_session[OF hyp(1,2,4), of sampleSequence]
    by (simp add: noFaceFrame_def runningHook_eq) blast
  moreover have "detectLoop sampleSequence runningHook (centeredFrame 5001)
     = Inr (runningHook\<lparr>isRunningRef := False,
              state := (state runningHook)\<lparr>isFaceDetected := True, stepStatus := StepFailed,
                 overallStatus := Failed, feedbackMessage := timeExpiredMessage,
                 motionProgress := 0\<rparr>\<rparr>)"
    by (simp add: detectLoop_def centeredFrame_def sampleMesh_select runningHook_eq
          STEP_TIMEOUT_MS_def failStep_def setState_def Let_def)
  moreover have "detectLoop sampleSequence runningHook (noFaceFrame 5001)
     = Inr (runningHook\<lparr>state := (state runningHook)\<lparr>isFaceDetected := False,
                 feedbackMessage :=
                   ''No face detected '' @ emDash @ '' look at the camera''\<rparr>\<rparr>)"
    by (simp add: detectLoop_def noFaceFrame_def selectLargestFace_def runningHook_eq
          setState_def Let_def)
  ultimately show ?thesis by blast
qed

text \<open>
  Claim C4 as stated makes every running session with an active step fail once 5000 ms
  have passed. Sixty seconds after the start of the step, a run of \<open>detectLoop\<close> that
  finds no face returns normally and leaves the session running, the step active.
\<close>

theorem timeout_without_face_counterexample:
  "isRunningRef runningHook
   \<and> overallStatus (state runningHook) = Running
   \<and> stepStatus (state runningHook) = Active
   \<and> \<not> hasAdvanced runningHook
   \<and> dateNow (noFaceFrame 60000) - stepStartTime runningHook > 5000
   \<and> \<not> isl (detectLoop sampleSequence runningHook (noFaceFrame 60000))
   \<and> overallStatus (state (projr (detectLoop sampleSequence runningHook (noFaceFrame 60000))))
       = Running
   \<and> stepStatus (state (projr (detectLoop sampleSequence runningHook (noFaceFrame 60000))))
       = Active
   \<and> isRunningRef (projr (detectLoop sampleSequence runningHook (noFaceFrame 60000)))"
  by (simp add: detectLoop_def noFaceFrame_def selectLargestFace_def runningHook_eq
        setState_def Let_def)

subsection \<open>Holding the centre\<close>


lemma advanceStep_fresh:
  "\<not> hasAdvanced hk \<Longrightarrow>
     hasAdvanced (advanceStep sq hk)
     \<and> stepStatus (state (advanceStep sq hk)) = StepSuccess
     \<and> motionProgress (state (advanceStep sq hk)) = 1
     \<and> centerFrames (advanceStep sq hk) = centerFrames hk
     \<and> currentStepRef (advanceStep sq hk) = currentStepRef hk
     \<and> stepStartTime (advanceStep sq hk) = stepStartTime hk
     \<and> (isRunningRef (advanceStep sq hk) \<longleftrightarrow>
          isRunningRef hk \<and> currentStepRef hk + 1 < length sq)"
  by (auto simp: advanceStep_def Let_def setState_def)




lemma startChallenge_props:
  "startChallenge sq now hk0 = Inr hk \<Longrightarrow>
     isRunningRef hk \<and> \<not> hasAdvanced hk \<and> stepStatus (state hk) = Active
     \<and> overallStatus (state hk) = Running
     \<and> currentStepRef hk = 0 \<and> centerFrames hk = 0 \<and> motionProgress (state hk) = 0
     \<and> stepStartTime hk = now"
  by (auto simp: startChallenge_def split: option.splits)





end
